theory Spec2Isabelle
  imports Complex_Main
begin

section \<open>JavaScript values\<close>

text \<open>
  The transaction form (\<^verbatim>\<open>TransactionForm.tsx\<close>) runs on untyped JavaScript values: the
  schema is checked at run time against whatever the form controls stored. A JavaScript
  number is a finite value, one of the two infinities, or NaN; only its comparison with
  zero matters here, so the finite values are reals.
\<close>

datatype jsnumber = Num real | PosInfinity | NegInfinity | NaN

text \<open>A \<^verbatim>\<open>Date\<close> holds a time value in milliseconds since the epoch, or is an Invalid Date
  (\<open>None\<close>).\<close>

datatype jsval =
    JUndefined
  | JNull
  | JBool bool
  | JNum jsnumber
  | JStr string
  | JDate "int option"
  | JObj "(string \<times> jsval) list"

text \<open>What a \<^verbatim>\<open>try\<close> block can catch: the TypeError of a property read on
  \<^verbatim>\<open>null\<close>/\<^verbatim>\<open>undefined\<close>, or whatever value a collaborator threw.\<close>

datatype exn = TypeError | Thrown jsval

text \<open>\<^verbatim>\<open>a <= b\<close> on numbers: false as soon as NaN is involved.\<close>

fun js_le :: "jsnumber \<Rightarrow> jsnumber \<Rightarrow> bool" where
  "js_le NaN _ = False"
| "js_le _ NaN = False"
| "js_le NegInfinity _ = True"
| "js_le _ PosInfinity = True"
| "js_le PosInfinity _ = False"
| "js_le _ NegInfinity = False"
| "js_le (Num a) (Num b) = (a \<le> b)"

text \<open>Truthiness, as \<^verbatim>\<open>if (v)\<close>, \<^verbatim>\<open>v || d\<close> and \<^verbatim>\<open>c ? a : b\<close> test it.\<close>

fun truthy :: "jsval \<Rightarrow> bool" where
  "truthy JUndefined = False"
| "truthy JNull = False"
| "truthy (JBool b) = b"
| "truthy (JNum n) = (n \<noteq> NaN \<and> n \<noteq> Num 0)"
| "truthy (JStr s) = (s \<noteq> [])"
| "truthy (JDate _) = True"
| "truthy (JObj _) = True"

text \<open>\<^verbatim>\<open>a || b\<close>.\<close>

definition js_or :: "jsval \<Rightarrow> jsval \<Rightarrow> jsval" where
  "js_or a b = (if truthy a then a else b)"

text \<open>\<^verbatim>\<open>a ?? b\<close>.\<close>

definition js_nullish :: "jsval \<Rightarrow> jsval \<Rightarrow> jsval" where
  "js_nullish a b = (if a = JUndefined \<or> a = JNull then b else a)"

text \<open>\<^verbatim>\<open>v.k\<close>: a TypeError on \<^verbatim>\<open>null\<close> and \<^verbatim>\<open>undefined\<close>, the property of an object
  (\<^verbatim>\<open>undefined\<close> when it has none), \<^verbatim>\<open>undefined\<close> on the other values, none of which has
  a property of the names read here.\<close>

fun get_prop :: "jsval \<Rightarrow> string \<Rightarrow> exn + jsval" where
  "get_prop JUndefined k = Inl TypeError"
| "get_prop JNull k = Inl TypeError"
| "get_prop (JObj kvs) k = Inr (case map_of kvs k of Some v \<Rightarrow> v | None \<Rightarrow> JUndefined)"
| "get_prop _ k = Inr JUndefined"

text \<open>\<^verbatim>\<open>v?.k\<close>: \<^verbatim>\<open>undefined\<close> instead of the TypeError.\<close>

definition get_prop_opt :: "jsval \<Rightarrow> string \<Rightarrow> jsval" where
  "get_prop_opt v k = (case get_prop v k of Inl _ \<Rightarrow> JUndefined | Inr x \<Rightarrow> x)"

section \<open>The form schema\<close>

text \<open>
  The values object of the form, with the keys of \<^verbatim>\<open>formSchema\<close>. The draft's account
  identifier is stored under \<^verbatim>\<open>account\<close>.
\<close>

record form_values =
  account :: jsval
  type :: jsval
  description :: jsval
  category :: jsval
  date :: jsval
  amount :: jsval
  "notes" :: jsval

datatype field = Account | Type | Description | Category | Date | Amount | Notes

text \<open>
  The schema checkers of the validation library (zod 3), as the schema uses them:
  \<^item> \<^verbatim>\<open>z.string().min(n)\<close>: a string of length at least \<open>n\<close>;
  \<^item> \<^verbatim>\<open>z.enum([...])\<close>: a string that is one of the options;
  \<^item> \<^verbatim>\<open>z.date()\<close>: a \<^verbatim>\<open>Date\<close> whose time value is not NaN;
  \<^item> \<^verbatim>\<open>z.number()\<close>: a number other than NaN (the infinities pass: there is no
    \<^verbatim>\<open>.finite()\<close>); \<^verbatim>\<open>.positive()\<close> reports the value too small when \<^verbatim>\<open>value <= 0\<close>;
  \<^item> \<^verbatim>\<open>z.string().optional()\<close>: \<^verbatim>\<open>undefined\<close> or a string.
\<close>

fun z_string_min :: "nat \<Rightarrow> jsval \<Rightarrow> bool" where
  "z_string_min n (JStr s) = (n \<le> length s)"
| "z_string_min n _ = False"

fun z_enum :: "string list \<Rightarrow> jsval \<Rightarrow> bool" where
  "z_enum opts (JStr s) = (s \<in> set opts)"
| "z_enum opts _ = False"

fun z_date :: "jsval \<Rightarrow> bool" where
  "z_date (JDate (Some t)) = True"
| "z_date _ = False"

fun z_number_positive :: "jsval \<Rightarrow> bool" where
  "z_number_positive (JNum n) = (n \<noteq> NaN \<and> \<not> js_le n (Num 0))"
| "z_number_positive _ = False"

fun z_string_optional :: "jsval \<Rightarrow> bool" where
  "z_string_optional JUndefined = True"
| "z_string_optional (JStr s) = True"
| "z_string_optional _ = False"

text \<open>\<^verbatim>\<open>formSchema\<close>: one issue per key whose checker fails, in the order of the keys.\<close>

definition formSchema :: "form_values \<Rightarrow> field list" where
  "formSchema v =
     (if z_string_min 1 (account v) then [] else [Account]) @
     (if z_enum [''expense'', ''income''] (type v) then [] else [Type]) @
     (if z_string_min 1 (description v) then [] else [Description]) @
     (if z_string_min 1 (category v) then [] else [Category]) @
     (if z_date (date v) then [] else [Date]) @
     (if z_number_positive (amount v) then [] else [Amount]) @
     (if z_string_optional (notes v) then [] else [Notes])"

record validation =
  valid :: bool
  errors :: "field list"

text \<open>The resolver (\<^verbatim>\<open>zodResolver(formSchema)\<close>): valid when the schema reports no issue.\<close>

definition validate :: "form_values \<Rightarrow> validation" where
  "validate v = \<lparr>valid = (formSchema v = []), errors = formSchema v\<rparr>"

text \<open>
  The validation rules as the specification words them, for comparison with the schema:
  the account identifier is a non-empty string, the type is expense or income, description
  and category are non-empty, the date is a valid date, the amount is a finite number
  strictly greater than zero, and the notes may be absent.
\<close>

fun spec_nonempty_string :: "jsval \<Rightarrow> bool" where
  "spec_nonempty_string (JStr s) = (s \<noteq> [])"
| "spec_nonempty_string _ = False"

fun spec_finite_positive :: "jsval \<Rightarrow> bool" where
  "spec_finite_positive (JNum (Num r)) = (0 < r)"
| "spec_finite_positive _ = False"

fun spec_valid_date :: "jsval \<Rightarrow> bool" where
  "spec_valid_date (JDate (Some t)) = True"
| "spec_valid_date _ = False"

fun spec_optional_string :: "jsval \<Rightarrow> bool" where
  "spec_optional_string JUndefined = True"
| "spec_optional_string (JStr s) = True"
| "spec_optional_string _ = False"

definition spec_rules :: "form_values \<Rightarrow> bool" where
  "spec_rules v \<longleftrightarrow>
     spec_nonempty_string (account v) \<and>
     (type v = JStr ''expense'' \<or> type v = JStr ''income'') \<and>
     spec_nonempty_string (description v) \<and>
     spec_nonempty_string (category v) \<and>
     spec_valid_date (date v) \<and>
     spec_finite_positive (amount v) \<and>
     spec_optional_string (notes v)"

section \<open>The component\<close>

text \<open>An account as \<^verbatim>\<open>getAllUserAccountsByUserId\<close> returns it; \<open>account_id\<close> and
  \<open>account_name\<close> are its \<^verbatim>\<open>id\<close> and \<^verbatim>\<open>name\<close>.\<close>

record user_account =
  account_id :: string
  account_name :: string
  isDefault :: bool

text \<open>The two values of \<^verbatim>\<open>useState<"expense" | "income">\<close>.\<close>

datatype type_tab = Expense | Income

text \<open>
  What the component does to the world outside its own state, in the order it does it:
  the creation call with its request, the two notifications, the revalidation of a path,
  the callback that closes the sheet, and \<^verbatim>\<open>console.error\<close> with its label and the
  caught value.
\<close>

datatype effect =
    CreateTransaction jsval
  | ToastSuccess string
  | ToastError jsval
  | RevalidatePath string
  | CloseSheet
  | ConsoleError string exn

text \<open>
  The state of one mounted form: the four \<^verbatim>\<open>useState\<close> cells (\<open>type_state\<close> is the cell
  \<^verbatim>\<open>type\<close>, which is not the \<^verbatim>\<open>type\<close> field of the form), the values and the errors held by
  \<^verbatim>\<open>useForm\<close>, and the effects emitted so far.
\<close>

record component_state =
  accounts :: "user_account list"
  defaultAccount :: "user_account option"
  showCalendar :: bool
  type_state :: type_tab
  form :: form_values
  form_errors :: "field list"
  effects :: "effect list"

text \<open>
  The collaborators, which are not part of the component: the two API calls, each either
  throwing or returning, and the category tables of \<^verbatim>\<open>@/lib/categories\<close>.
\<close>

record collaborators =
  getAllUserAccountsByUserId :: "string \<Rightarrow> exn + user_account list"
  createTransaction :: "jsval \<Rightarrow> exn + jsval"
  EXPENSE_CATEGORIES :: "string \<Rightarrow> string option"
  EXPENSE_CATEGORIES_KEYS :: "string list"
  INCOME_CATEGORIES :: "string \<Rightarrow> string option"
  INCOME_CATEGORIES_KEYS :: "string list"

text \<open>
  \<^verbatim>\<open>defaultValues\<close> of \<^verbatim>\<open>useForm\<close>: \<open>initialData\<close> is \<^verbatim>\<open>undefined\<close> or a transaction object,
  \<open>now\<close> is the time value of \<^verbatim>\<open>new Date()\<close> at that moment.
\<close>

definition defaultValues :: "jsval \<Rightarrow> int \<Rightarrow> form_values" where
  "defaultValues initialData now =
     \<lparr>account = js_or (get_prop_opt initialData ''UserAccountId'') (JStr ''''),
      type = js_or (get_prop_opt initialData ''type'') (JStr ''expense''),
      description = js_or (get_prop_opt initialData ''description'') (JStr ''''),
      category = js_or (get_prop_opt initialData ''category'') (JStr ''''),
      date = JDate (Some now),
      amount = js_or (get_prop_opt initialData ''amount'') (JNum (Num 0)),
      notes = js_or (get_prop_opt initialData ''notes'') (JStr '''')\<rparr>"

text \<open>The state after the first render.\<close>

definition mount :: "jsval \<Rightarrow> int \<Rightarrow> component_state" where
  "mount initialData now =
     \<lparr>accounts = [], defaultAccount = None, showCalendar = False, type_state = Expense,
      form = defaultValues initialData now, form_errors = [], effects = []\<rparr>"

text \<open>
  \<^verbatim>\<open>fetchAccountsAndDefaultAccount\<close>: the fetch, the search for the default account and the
  write to the \<^verbatim>\<open>account\<close> field, or the log of what the fetch threw.
\<close>

definition fetchAccountsAndDefaultAccount ::
  "collaborators \<Rightarrow> string \<Rightarrow> component_state \<Rightarrow> component_state" where
  "fetchAccountsAndDefaultAccount c userId st =
     (case getAllUserAccountsByUserId c userId of
        Inr fetchedAccounts \<Rightarrow>
          (let defaultAcc = find (\<lambda>account. isDefault account = True) fetchedAccounts
           in st\<lparr>accounts := fetchedAccounts,
                 defaultAccount := defaultAcc,
                 form := (form st)\<lparr>account :=
                   (case defaultAcc of Some a \<Rightarrow> JStr (account_id a) | None \<Rightarrow> JStr '''')\<rparr>\<rparr>)
      | Inl error \<Rightarrow>
          st\<lparr>effects := effects st @ [ConsoleError ''Error fetching accounts:'' error]\<rparr>)"

text \<open>The effect around it: it runs only for a truthy \<^verbatim>\<open>session?.user?.id\<close>.\<close>

definition accounts_effect ::
  "collaborators \<Rightarrow> string option \<Rightarrow> component_state \<Rightarrow> component_state" where
  "accounts_effect c userId st =
     (case userId of
        None \<Rightarrow> st
      | Some u \<Rightarrow> if u \<noteq> [] then fetchAccountsAndDefaultAccount c u st else st)"

text \<open>The request object that \<^verbatim>\<open>onSubmit\<close> builds from the values.\<close>

definition request_of :: "form_values \<Rightarrow> jsval" where
  "request_of values =
     JObj [(''UserAccountId'', account values),
           (''type'', type values),
           (''description'', description values),
           (''category'', category values),
           (''date'', date values),
           (''amount'', amount values),
           (''notes'', notes values)]"

text \<open>What \<^verbatim>\<open>onSubmit\<close> does with the awaited response, inside the \<^verbatim>\<open>try\<close>.\<close>

definition on_response :: "jsval \<Rightarrow> exn + effect list" where
  "on_response response =
     (case get_prop response ''success'' of
        Inl e \<Rightarrow> Inl e
      | Inr success \<Rightarrow>
          if truthy success then
            Inr [ToastSuccess ''Transaction created successfully'',
                 RevalidatePath ''/transactions'',
                 CloseSheet]
          else
            (case get_prop response ''error'' of
               Inl e \<Rightarrow> Inl e
             | Inr error \<Rightarrow>
                 if truthy error then Inr [ToastError error]
                 else Inr [ToastError (JStr ''Failed to create transaction!'')]))"

text \<open>\<^verbatim>\<open>onSubmit\<close>: the call, then the response, and the \<^verbatim>\<open>catch\<close> that logs.\<close>

definition onSubmit :: "collaborators \<Rightarrow> form_values \<Rightarrow> effect list" where
  "onSubmit c values =
     CreateTransaction (request_of values) #
     (case createTransaction c (request_of values) of
        Inl error \<Rightarrow> [ConsoleError ''Error submitting transaction:'' error]
      | Inr response \<Rightarrow>
          (case on_response response of
             Inl error \<Rightarrow> [ConsoleError ''Error submitting transaction:'' error]
           | Inr done \<Rightarrow> done))"

text \<open>
  \<^verbatim>\<open>form.handleSubmit(onSubmit)\<close>: the resolver runs first; \<^verbatim>\<open>onSubmit\<close> is called with the
  values only when they are valid, otherwise the errors are stored.
\<close>

definition handleSubmit :: "collaborators \<Rightarrow> component_state \<Rightarrow> component_state" where
  "handleSubmit c st =
     (let r = validate (form st)
      in if valid r
         then st\<lparr>form_errors := [], effects := effects st @ onSubmit c (form st)\<rparr>
         else st\<lparr>form_errors := errors r\<rparr>)"

text \<open>The entries of the category select: key and label, from the table of the active tab.\<close>

definition category_options :: "collaborators \<Rightarrow> component_state \<Rightarrow> (string \<times> string option) list" where
  "category_options c st =
     map (\<lambda>category.
            (category,
             (if type_state st = Expense then EXPENSE_CATEGORIES c else INCOME_CATEGORIES c)
               category))
         (if type_state st = Expense then EXPENSE_CATEGORIES_KEYS c
          else INCOME_CATEGORIES_KEYS c)"

subsection \<open>The date picker\<close>

text \<open>
  Days since the epoch of a date of the proleptic Gregorian calendar, and the time value
  of \<^verbatim>\<open>new Date("yyyy-mm-dd")\<close>: a date-only string is midnight UTC of that day.
\<close>

definition days_from_civil :: "int \<Rightarrow> int \<Rightarrow> int \<Rightarrow> int" where
  "days_from_civil y m d =
     (let y' = (if m \<le> 2 then y - 1 else y);
          era = y' div 400;
          yoe = y' - era * 400;
          doy = (153 * (if 2 < m then m - 3 else m + 9) + 2) div 5 + d - 1;
          doe = yoe * 365 + yoe div 4 - yoe div 100 + doy
      in era * 146097 + doe - 719468)"

definition new_Date_iso :: "int \<Rightarrow> int \<Rightarrow> int \<Rightarrow> int option" where
  "new_Date_iso y m d = Some (days_from_civil y m d * 86400000)"

text \<open>\<^verbatim>\<open>a > b\<close> and \<^verbatim>\<open>a < b\<close> on dates compare the time values; an Invalid Date is NaN
  there, and every comparison with it is false.\<close>

fun date_gt :: "int option \<Rightarrow> int option \<Rightarrow> bool" where
  "date_gt (Some a) (Some b) = (b < a)"
| "date_gt _ _ = False"

fun date_lt :: "int option \<Rightarrow> int option \<Rightarrow> bool" where
  "date_lt (Some a) (Some b) = (a < b)"
| "date_lt _ _ = False"

text \<open>The \<^verbatim>\<open>disabled\<close> function of the calendar; \<open>now\<close> is the time value of its
  \<^verbatim>\<open>new Date()\<close>.\<close>

definition Calendar_disabled :: "int \<Rightarrow> int option \<Rightarrow> bool" where
  "Calendar_disabled now d \<longleftrightarrow> date_gt d (Some now) \<or> date_lt d (new_Date_iso 1900 1 1)"

text \<open>
  The \<^verbatim>\<open>onSelect\<close> handler of the calendar: it stores what the calendar hands over, a
  \<^verbatim>\<open>Date\<close> or \<^verbatim>\<open>undefined\<close>, and closes the popover.
\<close>

definition onSelect :: "jsval \<Rightarrow> component_state \<Rightarrow> component_state" where
  "onSelect d st = st\<lparr>form := (form st)\<lparr>date := d\<rparr>, showCalendar := False\<rparr>"

text \<open>
  What can happen to a mounted form: the two type buttons, a change of each control (the
  amount control stores \<^verbatim>\<open>parseFloat\<close> of its text, a number), the popover opening or
  closing, the account effect for the session's user id, and the submit button. The
  calendar is the day picker of \<^verbatim>\<open>@/components/ui/calendar\<close> in single mode, which is not
  defined in the form's file: a click on a day reaches \<^verbatim>\<open>onSelect\<close> with the day's
  \<^verbatim>\<open>Date\<close> only when \<^verbatim>\<open>disabled\<close> does not reject that day (the button of a disabled day
  is inert), and a click on the selected day reaches it with \<^verbatim>\<open>undefined\<close>.
  \<open>DayClick now t\<close> is a click on the day with time value \<open>t\<close> in a calendar rendered at
  the instant \<open>now\<close>.
\<close>

datatype event =
    ClickExpense
  | ClickIncome
  | ChangeDescription string
  | ChangeCategory string
  | DayClick int int
  | DayUnselect
  | CalendarOpenChange bool
  | ChangeAccount string
  | ChangeAmount jsnumber
  | ChangeNotes string
  | AccountsEffect "string option"
  | SubmitForm

fun step :: "collaborators \<Rightarrow> component_state \<Rightarrow> event \<Rightarrow> component_state" where
  "step c st ClickExpense =
     st\<lparr>type_state := Expense, form := (form st)\<lparr>type := JStr ''expense''\<rparr>\<rparr>"
| "step c st ClickIncome =
     st\<lparr>type_state := Income, form := (form st)\<lparr>type := JStr ''income''\<rparr>\<rparr>"
| "step c st (ChangeDescription s) = st\<lparr>form := (form st)\<lparr>description := JStr s\<rparr>\<rparr>"
| "step c st (ChangeCategory s) = st\<lparr>form := (form st)\<lparr>category := JStr s\<rparr>\<rparr>"
| "step c st (DayClick now t) =
     (if Calendar_disabled now (Some t) then st else onSelect (JDate (Some t)) st)"
| "step c st DayUnselect = onSelect JUndefined st"
| "step c st (CalendarOpenChange b) = st\<lparr>showCalendar := b\<rparr>"
| "step c st (ChangeAccount s) = st\<lparr>form := (form st)\<lparr>account := JStr s\<rparr>\<rparr>"
| "step c st (ChangeAmount parseValue) = st\<lparr>form := (form st)\<lparr>amount := JNum parseValue\<rparr>\<rparr>"
| "step c st (ChangeNotes s) = st\<lparr>form := (form st)\<lparr>notes := JStr s\<rparr>\<rparr>"
| "step c st (AccountsEffect userId) = accounts_effect c userId st"
| "step c st SubmitForm = handleSubmit c st"

text \<open>A run of events, from left to right.\<close>

definition run :: "collaborators \<Rightarrow> component_state \<Rightarrow> event list \<Rightarrow> component_state" where
  "run c st evs = foldl (step c) st evs"

fun edits_amount :: "event \<Rightarrow> bool" where
  "edits_amount (ChangeAmount _) = True"
| "edits_amount _ = False"

fun is_create_call :: "effect \<Rightarrow> bool" where
  "is_create_call (CreateTransaction _) = True"
| "is_create_call _ = False"

fun is_toast :: "effect \<Rightarrow> bool" where
  "is_toast (ToastSuccess _) = True"
| "is_toast (ToastError _) = True"
| "is_toast _ = False"





subsection \<open>Calendar dates\<close>




subsection \<open>Sample data\<close>

text \<open>The draft of the specification's scenarios, an account list with two default
  accounts, collaborators that answer the same to every call, and a stored transaction
  opened for editing.\<close>

definition coffee :: form_values where
  "coffee = \<lparr>account = JStr ''a1'', type = JStr ''expense'', description = JStr ''Coffee'',
     category = JStr ''food'', date = JDate (Some 1709251200000), amount = JNum (Num 4.5),
     notes = JUndefined\<rparr>"

definition sample_accounts :: "user_account list" where
  "sample_accounts =
     [\<lparr>account_id = ''a1'', account_name = ''Cash'', isDefault = False\<rparr>,
      \<lparr>account_id = ''a2'', account_name = ''Bank'', isDefault = True\<rparr>,
      \<lparr>account_id = ''a3'', account_name = ''Card'', isDefault = True\<rparr>]"

definition sample_api :: "(exn + user_account list) \<Rightarrow> (exn + jsval) \<Rightarrow> collaborators" where
  "sample_api fetched created =
     \<lparr>getAllUserAccountsByUserId = (\<lambda>userId. fetched),
      createTransaction = (\<lambda>request. created),
      EXPENSE_CATEGORIES = map_of [(''food'', ''Food''), (''rent'', ''Rent'')],
      EXPENSE_CATEGORIES_KEYS = [''food'', ''rent''],
      INCOME_CATEGORIES = map_of [(''salary'', ''Salary'')],
      INCOME_CATEGORIES_KEYS = [''salary'']\<rparr>"

definition edit_transaction :: jsval where
  "edit_transaction =
     JObj [(''id'', JStr ''t1''), (''UserAccountId'', JStr ''a9''), (''type'', JStr ''income''),
           (''description'', JStr ''Salary''), (''category'', JStr ''salary''),
           (''date'', JDate (Some 1704067200000)), (''amount'', JNum (Num 100)),
           (''notes'', JNull)]"

definition coffee_state :: component_state where
  "coffee_state = (mount JUndefined 1709251200000)\<lparr>form := coffee\<rparr>"

definition fresh_session :: "event list" where
  "fresh_session =
     [AccountsEffect (Some ''u1''), ChangeDescription ''Coffee'', ChangeCategory ''food'',
      SubmitForm, ClickIncome, ChangeNotes ''beans'', SubmitForm]"


section \<open>Validation\<close>

lemma z_string_min_1_iff: "z_string_min 1 x \<longleftrightarrow> (\<exists>s. x = JStr s \<and> s \<noteq> [])"
  by (cases x) (auto simp: Suc_le_eq)

lemma z_enum_type_iff:
  "z_enum [''expense'', ''income''] x \<longleftrightarrow> x = JStr ''expense'' \<or> x = JStr ''income''"
  by (cases x) auto

lemma z_date_iff: "z_date x \<longleftrightarrow> (\<exists>t. x = JDate (Some t))"
  by (cases x rule: z_date.cases) auto

lemma js_le_zero_iff:
  "js_le n (Num 0) \<longleftrightarrow> n = NegInfinity \<or> (\<exists>r. n = Num r \<and> r \<le> 0)"
  by (cases n) auto

lemma z_number_positive_iff:
  "z_number_positive x \<longleftrightarrow> x = JNum PosInfinity \<or> (\<exists>r. x = JNum (Num r) \<and> 0 < r)"
proof (cases x)
  case (JNum n)
  then show ?thesis by (cases n) auto
qed auto

lemma z_string_optional_iff:
  "z_string_optional x \<longleftrightarrow> x = JUndefined \<or> (\<exists>s. x = JStr s)"
  by (cases x) auto

lemma formSchema_set:
  "set (formSchema v) =
     (if z_string_min 1 (account v) then {} else {Account}) \<union>
     (if z_enum [''expense'', ''income''] (type v) then {} else {Type}) \<union>
     (if z_string_min 1 (description v) then {} else {Description}) \<union>
     (if z_string_min 1 (category v) then {} else {Category}) \<union>
     (if z_date (date v) then {} else {Date}) \<union>
     (if z_number_positive (amount v) then {} else {Amount}) \<union>
     (if z_string_optional (notes v) then {} else {Notes})"
  by (simp add: formSchema_def)

lemma formSchema_mem:
  "Account \<in> set (formSchema v) \<longleftrightarrow> \<not> z_string_min 1 (account v)"
  "Type \<in> set (formSchema v) \<longleftrightarrow> \<not> z_enum [''expense'', ''income''] (type v)"
  "Description \<in> set (formSchema v) \<longleftrightarrow> \<not> z_string_min 1 (description v)"
  "Category \<in> set (formSchema v) \<longleftrightarrow> \<not> z_string_min 1 (category v)"
  "Date \<in> set (formSchema v) \<longleftrightarrow> \<not> z_date (date v)"
  "Amount \<in> set (formSchema v) \<longleftrightarrow> \<not> z_number_positive (amount v)"
  "Notes \<in> set (formSchema v) \<longleftrightarrow> \<not> z_string_optional (notes v)"
  by (simp_all add: formSchema_set)

lemma formSchema_Nil_iff:
  "formSchema v = [] \<longleftrightarrow>
     z_string_min 1 (account v) \<and> z_enum [''expense'', ''income''] (type v) \<and>
     z_string_min 1 (description v) \<and> z_string_min 1 (category v) \<and>
     z_date (date v) \<and> z_number_positive (amount v) \<and> z_string_optional (notes v)"
  by (simp add: formSchema_def)

lemma formSchema_distinct: "distinct (formSchema v)"
  by (simp add: formSchema_def)

text \<open>
  Claim C1, as amended. For every draft, validation is valid exactly when it reports no
  error, and that is exactly when the account is a non-empty string, the type is expense or
  income, description and category are non-empty strings, the date is a valid date, the
  amount is positive infinity or a finite number strictly greater than zero (NaN is
  refused), and the notes are absent or a string. Each field has an error entry exactly
  when its own rule is violated, and no field is reported twice.
\<close>

theorem validate_rules:
  "(valid (validate v) \<longleftrightarrow> errors (validate v) = []) \<and>
   (valid (validate v) \<longleftrightarrow>
      (\<exists>s. account v = JStr s \<and> s \<noteq> []) \<and>
      (type v = JStr ''expense'' \<or> type v = JStr ''income'') \<and>
      (\<exists>s. description v = JStr s \<and> s \<noteq> []) \<and>
      (\<exists>s. category v = JStr s \<and> s \<noteq> []) \<and>
      (\<exists>t. date v = JDate (Some t)) \<and>
      (amount v = JNum PosInfinity \<or> (\<exists>r. amount v = JNum (Num r) \<and> 0 < r)) \<and>
      (notes v = JUndefined \<or> (\<exists>s. notes v = JStr s))) \<and>
   (Account \<in> set (errors (validate v)) \<longleftrightarrow> (\<nexists>s. account v = JStr s \<and> s \<noteq> [])) \<and>
   (Type \<in> set (errors (validate v)) \<longleftrightarrow>
      type v \<noteq> JStr ''expense'' \<and> type v \<noteq> JStr ''income'') \<and>
   (Description \<in> set (errors (validate v)) \<longleftrightarrow> (\<nexists>s. description v = JStr s \<and> s \<noteq> [])) \<and>
   (Category \<in> set (errors (validate v)) \<longleftrightarrow> (\<nexists>s. category v = JStr s \<and> s \<noteq> [])) \<and>
   (Date \<in> set (errors (validate v)) \<longleftrightarrow> (\<nexists>t. date v = JDate (Some t))) \<and>
   (Amount \<in> set (errors (validate v)) \<longleftrightarrow>
      amount v \<noteq> JNum PosInfinity \<and> (\<nexists>r. amount v = JNum (Num r) \<and> 0 < r)) \<and>
   (Notes \<in> set (errors (validate v)) \<longleftrightarrow>
      notes v \<noteq> JUndefined \<and> (\<nexists>s. notes v = JStr s)) \<and>
   distinct (errors (validate v))"
  unfolding validate_def
  by (simp add: formSchema_mem formSchema_Nil_iff formSchema_distinct
      z_string_min_1_iff [simplified] z_enum_type_iff z_date_iff z_number_positive_iff z_string_optional_iff)

text \<open>
  Claim C1 as stated asks for a finite amount. The schema has no finiteness check: the
  scenario draft with the amount \<^verbatim>\<open>Infinity\<close> validates with no error, although the rules
  as the specification words them reject it.
\<close>

theorem validate_infinite_amount_counterexample:
  "valid (validate (coffee\<lparr>amount := JNum PosInfinity\<rparr>)) \<and>
   errors (validate (coffee\<lparr>amount := JNum PosInfinity\<rparr>)) = [] \<and>
   \<not> spec_rules (coffee\<lparr>amount := JNum PosInfinity\<rparr>)"
  by (simp add: validate_def formSchema_def coffee_def spec_rules_def)

text \<open>The scenario draft validates; with the amount \<open>-5\<close> it fails with an error on the
  amount alone.\<close>

theorem validate_rules_witness:
  "valid (validate coffee) \<and> errors (validate coffee) = [] \<and>
   \<not> valid (validate (coffee\<lparr>amount := JNum (Num (-5))\<rparr>)) \<and>
   set (errors (validate (coffee\<lparr>amount := JNum (Num (-5))\<rparr>))) = {Amount}"
proof -
  let ?bad = "coffee\<lparr>amount := JNum (Num (-5))\<rparr>"
  note good_rules = validate_rules [of coffee]
  note bad_rules = validate_rules [of ?bad]
  have r: "\<exists>r::real. r * 2 = 9 \<and> 0 < r"
    by (rule exI [of _ "9 / 2"]) simp
  have "(\<exists>s. account coffee = JStr s \<and> s \<noteq> []) \<and>
      (type coffee = JStr ''expense'' \<or> type coffee = JStr ''income'') \<and>
      (\<exists>s. description coffee = JStr s \<and> s \<noteq> []) \<and>
      (\<exists>s. category coffee = JStr s \<and> s \<noteq> []) \<and>
      (\<exists>t. date coffee = JDate (Some t)) \<and>
      (amount coffee = JNum PosInfinity \<or> (\<exists>r. amount coffee = JNum (Num r) \<and> 0 < r)) \<and>
      (notes coffee = JUndefined \<or> (\<exists>s. notes coffee = JStr s))"
    by (simp add: coffee_def r)
  with good_rules have a: "valid (validate coffee)"
    by blast
  with good_rules have a': "errors (validate coffee) = []"
    by blast
  have "\<not> (amount ?bad = JNum PosInfinity \<or> (\<exists>r. amount ?bad = JNum (Num r) \<and> 0 < r))"
    by simp
  with bad_rules have b: "\<not> valid (validate ?bad)"
    by blast
  have "f \<in> set (errors (validate ?bad)) \<longleftrightarrow> f = Amount" for f
    using bad_rules by (cases f) (simp_all add: coffee_def)
  then have c: "set (errors (validate ?bad)) = {Amount}"
    by auto
  show ?thesis using a a' b c by simp
qed

section \<open>The account resolver\<close>

lemma find_Some_first:
  "find P xs = Some a \<Longrightarrow> \<exists>pre post. xs = pre @ a # post \<and> P a \<and> (\<forall>x\<in>set pre. \<not> P x)"
proof (induction xs)
  case Nil
  then show ?case by simp
next
  case (Cons x xs)
  show ?case
  proof (cases "P x")
    case True
    with Cons.prems have "x = a" by simp
    with True have "x # xs = [] @ a # xs \<and> P a \<and> (\<forall>y\<in>set []. \<not> P y)" by simp
    then show ?thesis by blast
  next
    case False
    with Cons.prems have "find P xs = Some a" by simp
    from Cons.IH [OF this] obtain pre post
      where "xs = pre @ a # post" "P a" "\<forall>y\<in>set pre. \<not> P y" by blast
    with False have "x # xs = (x # pre) @ a # post \<and> P a \<and> (\<forall>y\<in>set (x # pre). \<not> P y)"
      by simp
    then show ?thesis by blast
  qed
qed

text \<open>
  Claim C2. For every account list the fetch returns, the resolver takes the first account
  whose \<^verbatim>\<open>isDefault\<close> is true (no account before it in the list is a default) and writes its
  id into the \<^verbatim>\<open>account\<close> field of the draft, whatever that field held before and leaving
  the other fields as they were; when no account is a default it writes the empty string.
\<close>

theorem account_resolver_selects_first_default:
  assumes "getAllUserAccountsByUserId c userId = Inr fetched"
  shows "(\<exists>pre a post. fetched = pre @ a # post \<and> isDefault a \<and> (\<forall>x\<in>set pre. \<not> isDefault x) \<and>
            form (fetchAccountsAndDefaultAccount c userId st) =
              (form st)\<lparr>account := JStr (account_id a)\<rparr>) \<or>
         ((\<forall>x\<in>set fetched. \<not> isDefault x) \<and>
            form (fetchAccountsAndDefaultAccount c userId st) = (form st)\<lparr>account := JStr ''''\<rparr>)"
proof (cases "find (\<lambda>account. isDefault account = True) fetched")
  case None
  then have "\<forall>x\<in>set fetched. \<not> isDefault x"
    by (simp add: find_None_iff)
  moreover from None assms
  have "form (fetchAccountsAndDefaultAccount c userId st) = (form st)\<lparr>account := JStr ''''\<rparr>"
    by (simp add: fetchAccountsAndDefaultAccount_def)
  ultimately show ?thesis by blast
next
  case (Some a)
  from find_Some_first [OF Some] obtain pre post
    where "fetched = pre @ a # post" "isDefault a" "\<forall>x\<in>set pre. \<not> isDefault x"
    by auto
  moreover from Some assms
  have "form (fetchAccountsAndDefaultAccount c userId st) =
      (form st)\<lparr>account := JStr (account_id a)\<rparr>"
    by (simp add: fetchAccountsAndDefaultAccount_def)
  ultimately show ?thesis by blast
qed

text \<open>A form opened on a stored transaction of account \<open>a9\<close>: with the sample accounts the
  field becomes \<open>a2\<close>, the first of the two defaults; with no default in the list it becomes
  empty.\<close>

theorem account_resolver_selects_first_default_witness:
  "getAllUserAccountsByUserId (sample_api (Inr sample_accounts) (Inr JUndefined)) ''u1'' =
     Inr sample_accounts \<and>
   account (form (mount edit_transaction 0)) = JStr ''a9'' \<and>
   account (form (fetchAccountsAndDefaultAccount
     (sample_api (Inr sample_accounts) (Inr JUndefined)) ''u1'' (mount edit_transaction 0))) =
     JStr ''a2'' \<and>
   account (form (fetchAccountsAndDefaultAccount
     (sample_api (Inr (take 1 sample_accounts)) (Inr JUndefined)) ''u1''
     (mount edit_transaction 0))) = JStr ''''"
proof -
  let ?c = "sample_api (Inr sample_accounts) (Inr JUndefined)"
  let ?c1 = "sample_api (Inr (take 1 sample_accounts)) (Inr JUndefined)"
  let ?st = "mount edit_transaction 0"
  have h: "getAllUserAccountsByUserId ?c ''u1'' = Inr sample_accounts"
    by (simp add: sample_api_def)
  have h1: "getAllUserAccountsByUserId ?c1 ''u1'' = Inr (take 1 sample_accounts)"
    by (simp add: sample_api_def)
  have old: "account (form ?st) = JStr ''a9''"
    by (simp add: mount_def defaultValues_def edit_transaction_def get_prop_opt_def js_or_def)
  have "account (form (fetchAccountsAndDefaultAccount ?c ''u1'' ?st)) = JStr ''a2''"
    using account_resolver_selects_first_default [OF h, of ?st]
    by (auto simp: sample_accounts_def Cons_eq_append_conv)
  moreover have "account (form (fetchAccountsAndDefaultAccount ?c1 ''u1'' ?st)) = JStr ''''"
    using account_resolver_selects_first_default [OF h1, of ?st]
    by (auto simp: sample_accounts_def Cons_eq_append_conv)
  ultimately show ?thesis using h old by simp
qed

section \<open>The submission pipeline\<close>

lemma get_prop_nullish:
  "get_prop response k = Inl e \<longleftrightarrow> (response = JUndefined \<or> response = JNull) \<and> e = TypeError"
  by (cases response) auto

lemma get_prop_present:
  "response \<noteq> JUndefined \<Longrightarrow> response \<noteq> JNull \<Longrightarrow>
   get_prop response k = Inr (get_prop_opt response k)"
  by (cases response) (simp_all add: get_prop_opt_def)

lemma on_response_nullish:
  "response = JUndefined \<or> response = JNull \<Longrightarrow> on_response response = Inl TypeError"
  by (auto simp: on_response_def)

lemma on_response_present:
  assumes "response \<noteq> JUndefined" "response \<noteq> JNull"
  shows "on_response response =
     (if truthy (get_prop_opt response ''success'')
      then Inr [ToastSuccess ''Transaction created successfully'',
                RevalidatePath ''/transactions'', CloseSheet]
      else if truthy (get_prop_opt response ''error'')
      then Inr [ToastError (get_prop_opt response ''error'')]
      else Inr [ToastError (JStr ''Failed to create transaction!'')])"
  by (simp add: on_response_def get_prop_present [OF assms])

lemma form_handleSubmit: "form (handleSubmit c st) = form st"
  by (simp add: handleSubmit_def Let_def)

lemma form_coffee_state: "form coffee_state = coffee"
  by (simp add: coffee_state_def)

lemma sample_api_create: "createTransaction (sample_api fetched created) request = created"
  by (simp add: sample_api_def)

lemma get_prop_opt_simps:
  "get_prop_opt (JObj kvs) k = (case map_of kvs k of Some v \<Rightarrow> v | None \<Rightarrow> JUndefined)"
  "get_prop_opt JUndefined k = JUndefined"
  "get_prop_opt JNull k = JUndefined"
  by (simp_all add: get_prop_opt_def)

lemma onSubmit_calls:
  "filter is_create_call (onSubmit c v) = [CreateTransaction (request_of v)]"
  by (simp add: onSubmit_def on_response_def split: sum.splits)

text \<open>
  Claim C8. Whatever the draft and the collaborators, the submit handler makes exactly one
  creation call, before anything else, and its request is the draft with the account
  identifier under the key \<^verbatim>\<open>UserAccountId\<close> and every other value under its own key:
  reading each key of the request gives back the draft's value unchanged, and the request
  has no \<^verbatim>\<open>account\<close> key.
\<close>

theorem onSubmit_request_renames_only:
  "filter is_create_call (onSubmit c v) =
     [CreateTransaction
        (JObj [(''UserAccountId'', account v),
               (''type'', type v),
               (''description'', description v),
               (''category'', category v),
               (''date'', date v),
               (''amount'', amount v),
               (''notes'', notes v)])] \<and>
   hd (onSubmit c v) = CreateTransaction (request_of v) \<and>
   get_prop (request_of v) ''UserAccountId'' = Inr (account v) \<and>
   get_prop (request_of v) ''type'' = Inr (type v) \<and>
   get_prop (request_of v) ''description'' = Inr (description v) \<and>
   get_prop (request_of v) ''category'' = Inr (category v) \<and>
   get_prop (request_of v) ''date'' = Inr (date v) \<and>
   get_prop (request_of v) ''amount'' = Inr (amount v) \<and>
   get_prop (request_of v) ''notes'' = Inr (notes v) \<and>
   get_prop (request_of v) ''account'' = Inr JUndefined"
proof -
  have "filter is_create_call (onSubmit c v) = [CreateTransaction (request_of v)]"
    by (rule onSubmit_calls)
  moreover have "hd (onSubmit c v) = CreateTransaction (request_of v)"
    by (simp add: onSubmit_def)
  ultimately show ?thesis
    by (simp add: request_of_def)
qed

text \<open>
  The request for the scenario draft.
\<close>

theorem onSubmit_request_renames_only_witness:
  "filter is_create_call (onSubmit (sample_api (Inr []) (Inr (JObj [(''success'', JBool True)]))) coffee) =
     [CreateTransaction
        (JObj [(''UserAccountId'', JStr ''a1''),
               (''type'', JStr ''expense''),
               (''description'', JStr ''Coffee''),
               (''category'', JStr ''food''),
               (''date'', JDate (Some 1709251200000)),
               (''amount'', JNum (Num 4.5)),
               (''notes'', JUndefined)])]"
  using onSubmit_request_renames_only [of "sample_api (Inr []) (Inr (JObj [(''success'', JBool True)]))" coffee]
  by (simp add: coffee_def)

text \<open>
  Claim C3, as amended. When the creation call returns a response: if the response is
  neither \<^verbatim>\<open>null\<close> nor \<^verbatim>\<open>undefined\<close> and its \<^verbatim>\<open>success\<close> is truthy, the handler emits the success
  notification, revalidates \<^verbatim>\<open>/transactions\<close> and closes the sheet, in that order; if
  \<^verbatim>\<open>success\<close> is falsy and \<^verbatim>\<open>error\<close> is truthy, it emits one error notification carrying
  that \<^verbatim>\<open>error\<close> and nothing else, so the sheet stays open; if both are falsy (an empty
  message included) it emits the generic failure notification; a \<^verbatim>\<open>null\<close> or \<^verbatim>\<open>undefined\<close>
  response makes the property read throw, which is caught and logged with no notification.
  In every case the draft is left as it was.
\<close>

theorem onSubmit_result_cases:
  assumes "createTransaction c (request_of (form st)) = Inr response"
  shows "(response \<noteq> JUndefined \<and> response \<noteq> JNull \<and> truthy (get_prop_opt response ''success'') \<longrightarrow>
            onSubmit c (form st) =
              [CreateTransaction (request_of (form st)),
               ToastSuccess ''Transaction created successfully'',
               RevalidatePath ''/transactions'',
               CloseSheet]) \<and>
         (response \<noteq> JUndefined \<and> response \<noteq> JNull \<and> \<not> truthy (get_prop_opt response ''success'') \<and>
          truthy (get_prop_opt response ''error'') \<longrightarrow>
            onSubmit c (form st) =
              [CreateTransaction (request_of (form st)),
               ToastError (get_prop_opt response ''error'')]) \<and>
         (response \<noteq> JUndefined \<and> response \<noteq> JNull \<and> \<not> truthy (get_prop_opt response ''success'') \<and>
          \<not> truthy (get_prop_opt response ''error'') \<longrightarrow>
            onSubmit c (form st) =
              [CreateTransaction (request_of (form st)),
               ToastError (JStr ''Failed to create transaction!'')]) \<and>
         (response = JUndefined \<or> response = JNull \<longrightarrow>
            onSubmit c (form st) =
              [CreateTransaction (request_of (form st)),
               ConsoleError ''Error submitting transaction:'' TypeError]) \<and>
         form (handleSubmit c st) = form st"
proof -
  have "onSubmit c (form st) =
      [CreateTransaction (request_of (form st)),
       ConsoleError ''Error submitting transaction:'' TypeError]"
    if "response = JUndefined \<or> response = JNull"
    using assms on_response_nullish [OF that] by (simp add: onSubmit_def)
  moreover have "onSubmit c (form st) =
      CreateTransaction (request_of (form st)) #
      (if truthy (get_prop_opt response ''success'')
       then [ToastSuccess ''Transaction created successfully'',
             RevalidatePath ''/transactions'', CloseSheet]
       else if truthy (get_prop_opt response ''error'')
       then [ToastError (get_prop_opt response ''error'')]
       else [ToastError (JStr ''Failed to create transaction!'')])"
    if "response \<noteq> JUndefined" "response \<noteq> JNull"
    using assms on_response_present [OF that] by (simp add: onSubmit_def)
  ultimately show ?thesis
    by (simp add: form_handleSubmit)
qed

text \<open>
  The four cases on the scenario draft: \<^verbatim>\<open>{success: true}\<close>, the server's
  \<^verbatim>\<open>"Account not found"\<close>, a response with no message, and \<^verbatim>\<open>null\<close>.
\<close>

theorem onSubmit_result_cases_witness:
  "onSubmit (sample_api (Inr []) (Inr (JObj [(''success'', JBool True)]))) (form coffee_state) =
     [CreateTransaction (request_of coffee),
      ToastSuccess ''Transaction created successfully'',
      RevalidatePath ''/transactions'',
      CloseSheet] \<and>
   onSubmit (sample_api (Inr [])
       (Inr (JObj [(''success'', JBool False), (''error'', JStr ''Account not found'')])))
     (form coffee_state) =
     [CreateTransaction (request_of coffee), ToastError (JStr ''Account not found'')] \<and>
   onSubmit (sample_api (Inr []) (Inr (JObj [(''success'', JBool False)]))) (form coffee_state) =
     [CreateTransaction (request_of coffee), ToastError (JStr ''Failed to create transaction!'')] \<and>
   onSubmit (sample_api (Inr []) (Inr JNull)) (form coffee_state) =
     [CreateTransaction (request_of coffee),
      ConsoleError ''Error submitting transaction:'' TypeError] \<and>
   form (handleSubmit (sample_api (Inr [])
       (Inr (JObj [(''success'', JBool False), (''error'', JStr ''Account not found'')])))
     coffee_state) = coffee"
proof -
  let ?ok = "JObj [(''success'', JBool True)]"
  let ?err = "JObj [(''success'', JBool False), (''error'', JStr ''Account not found'')]"
  let ?odd = "JObj [(''success'', JBool False)]"
  have call: "createTransaction (sample_api (Inr []) (Inr r)) (request_of (form coffee_state)) = Inr r"
    for r by (rule sample_api_create)
  show ?thesis
    using onSubmit_result_cases [OF call [of ?ok]] onSubmit_result_cases [OF call [of ?err]]
      onSubmit_result_cases [OF call [of ?odd]] onSubmit_result_cases [OF call [of JNull]]
    by (simp add: get_prop_opt_simps form_coffee_state)
qed

text \<open>
  Claim C3 as stated promises the generic notification for every other falsy result and
  the server's message for every \<^verbatim>\<open>{success: false, error}\<close>. The falsy result \<^verbatim>\<open>undefined\<close>
  is only logged, with no notification at all; and the empty message of
  \<^verbatim>\<open>{success: false, error: ""}\<close> is replaced by the generic text.
\<close>

theorem onSubmit_falsy_result_counterexample:
  "\<not> truthy JUndefined \<and>
   onSubmit (sample_api (Inr []) (Inr JUndefined)) coffee =
     [CreateTransaction (request_of coffee),
      ConsoleError ''Error submitting transaction:'' TypeError] \<and>
   filter is_toast (onSubmit (sample_api (Inr []) (Inr JUndefined)) coffee) = [] \<and>
   onSubmit (sample_api (Inr []) (Inr (JObj [(''success'', JBool False), (''error'', JStr '''')])))
     coffee =
     [CreateTransaction (request_of coffee), ToastError (JStr ''Failed to create transaction!'')]"
  by (simp add: onSubmit_def on_response_def sample_api_def)

text \<open>
  Claim C4. When the creation call throws, the handler logs the thrown value and does
  nothing else: no notification of either severity, no close signal, no revalidation; and
  submitting leaves the draft and the rest of the component's state as they were.
\<close>

theorem onSubmit_exception_logged_only:
  assumes "createTransaction c (request_of (form st)) = Inl e"
  shows "onSubmit c (form st) =
           [CreateTransaction (request_of (form st)),
            ConsoleError ''Error submitting transaction:'' e] \<and>
         filter is_toast (onSubmit c (form st)) = [] \<and>
         CloseSheet \<notin> set (onSubmit c (form st)) \<and>
         RevalidatePath ''/transactions'' \<notin> set (onSubmit c (form st)) \<and>
         form (handleSubmit c st) = form st \<and>
         accounts (handleSubmit c st) = accounts st \<and>
         defaultAccount (handleSubmit c st) = defaultAccount st \<and>
         type_state (handleSubmit c st) = type_state st \<and>
         showCalendar (handleSubmit c st) = showCalendar st \<and>
         filter is_toast (effects (handleSubmit c st)) = filter is_toast (effects st) \<and>
         CloseSheet \<notin> set (effects (handleSubmit c st)) - set (effects st)"
  using assms by (simp add: onSubmit_def handleSubmit_def Let_def)

text \<open>
  The scenario draft, valid, submitted to a creation call that throws: the call and the
  log are the only effects.
\<close>

theorem onSubmit_exception_logged_only_witness:
  "valid (validate (form coffee_state)) \<and>
   effects (handleSubmit (sample_api (Inr []) (Inl (Thrown (JStr ''fetch failed'')))) coffee_state) =
     [CreateTransaction (request_of coffee),
      ConsoleError ''Error submitting transaction:'' (Thrown (JStr ''fetch failed''))] \<and>
   form (handleSubmit (sample_api (Inr []) (Inl (Thrown (JStr ''fetch failed'')))) coffee_state) =
     coffee"
proof -
  let ?c = "sample_api (Inr []) (Inl (Thrown (JStr ''fetch failed'')))"
  have call: "createTransaction ?c (request_of (form coffee_state)) =
      Inl (Thrown (JStr ''fetch failed''))"
    by (rule sample_api_create)
  have v: "valid (validate (form coffee_state))"
    by (simp add: form_coffee_state validate_def formSchema_def coffee_def)
  have "effects coffee_state = []"
    by (simp add: coffee_state_def mount_def)
  with v have "effects (handleSubmit ?c coffee_state) = onSubmit ?c (form coffee_state)"
    by (simp add: handleSubmit_def Let_def)
  with v show ?thesis
    using onSubmit_exception_logged_only [OF call] by (simp add: form_coffee_state)
qed

section \<open>The type buttons\<close>

text \<open>
  Claim C5. In every state, the income button makes the category select offer the income
  keys with the income labels, the expense button the expense keys with the expense labels,
  and either button changes the \<^verbatim>\<open>type\<close> field of the draft and nothing else in it: the
  \<^verbatim>\<open>category\<close> value chosen before is carried over as it is.
\<close>

theorem type_toggle_keeps_category:
  "category_options c (step c st ClickIncome) =
     map (\<lambda>k. (k, INCOME_CATEGORIES c k)) (INCOME_CATEGORIES_KEYS c) \<and>
   category_options c (step c st ClickExpense) =
     map (\<lambda>k. (k, EXPENSE_CATEGORIES c k)) (EXPENSE_CATEGORIES_KEYS c) \<and>
   category (form (step c st ClickIncome)) = category (form st) \<and>
   category (form (step c st ClickExpense)) = category (form st) \<and>
   form (step c st ClickIncome) = (form st)\<lparr>type := JStr ''income''\<rparr> \<and>
   form (step c st ClickExpense) = (form st)\<lparr>type := JStr ''expense''\<rparr>"
  by (simp add: category_options_def)

text \<open>
  The scenario draft has the expense category \<open>food\<close>; after the income button the select
  offers only \<open>salary\<close> and the draft still holds \<open>food\<close>.
\<close>

theorem type_toggle_keeps_category_witness:
  "map fst (category_options (sample_api (Inr []) (Inr JNull)) coffee_state) = [''food'', ''rent''] \<and>
   map fst (category_options (sample_api (Inr []) (Inr JNull))
     (step (sample_api (Inr []) (Inr JNull)) coffee_state ClickIncome)) = [''salary''] \<and>
   category (form (step (sample_api (Inr []) (Inr JNull)) coffee_state ClickIncome)) = JStr ''food'' \<and>
   type (form (step (sample_api (Inr []) (Inr JNull)) coffee_state ClickIncome)) = JStr ''income''"
proof -
  let ?c = "sample_api (Inr []) (Inr JNull)"
  have "map fst (category_options ?c coffee_state) = [''food'', ''rent'']"
    by (simp add: category_options_def coffee_state_def mount_def sample_api_def)
  moreover have "category (form coffee_state) = JStr ''food''"
    by (simp add: form_coffee_state coffee_def)
  ultimately show ?thesis
    using type_toggle_keeps_category [of ?c coffee_state]
    by (simp add: sample_api_def)
qed

section \<open>The date picker\<close>


lemma new_Date_epoch: "new_Date_iso 1970 1 1 = Some 0"
  by (simp add: new_Date_iso_def days_from_civil_def)














section \<open>A failed account fetch\<close>

lemma form_step_effects_irrelevant:
  "form (step c (st\<lparr>effects := fx\<rparr>) ev) = form (step c st ev)"
  by (cases ev)
    (simp_all add: accounts_effect_def fetchAccountsAndDefaultAccount_def handleSubmit_def
      onSelect_def Let_def split: option.splits sum.splits)

text \<open>
  Claim C7, as amended. When the account fetch throws, the resolver logs the thrown value
  and changes nothing else in the state: the \<^verbatim>\<open>account\<close> field keeps the value it had, which
  is the empty string for a form mounted without initial data; and every later event
  changes the draft exactly as it would have without the failure, so the form stays
  editable.
\<close>

theorem fetch_failure_leaves_form:
  assumes "getAllUserAccountsByUserId c userId = Inl e"
  shows "fetchAccountsAndDefaultAccount c userId st =
           st\<lparr>effects := effects st @ [ConsoleError ''Error fetching accounts:'' e]\<rparr> \<and>
         account (form (fetchAccountsAndDefaultAccount c userId st)) = account (form st) \<and>
         account (form (fetchAccountsAndDefaultAccount c userId (mount JUndefined now))) =
           JStr '''' \<and>
         form (step c (fetchAccountsAndDefaultAccount c userId st) ev) = form (step c st ev)"
proof -
  have eq: "fetchAccountsAndDefaultAccount c userId s =
      s\<lparr>effects := effects s @ [ConsoleError ''Error fetching accounts:'' e]\<rparr>" for s
    using assms by (simp add: fetchAccountsAndDefaultAccount_def)
  have "account (form (mount JUndefined now)) = JStr ''''"
    by (simp add: mount_def defaultValues_def get_prop_opt_def js_or_def)
  then show ?thesis
    by (simp add: eq form_step_effects_irrelevant)
qed

text \<open>
  A form mounted without initial data whose fetch fails: the log is the only change, the
  account is empty, and a description typed afterwards is stored.
\<close>

theorem fetch_failure_leaves_form_witness:
  "fetchAccountsAndDefaultAccount (sample_api (Inl (Thrown (JStr ''offline''))) (Inr JNull)) ''u1''
     (mount JUndefined 0) =
     (mount JUndefined 0)\<lparr>effects :=
        [ConsoleError ''Error fetching accounts:'' (Thrown (JStr ''offline''))]\<rparr> \<and>
   account (form (fetchAccountsAndDefaultAccount
     (sample_api (Inl (Thrown (JStr ''offline''))) (Inr JNull)) ''u1'' (mount JUndefined 0))) =
     JStr '''' \<and>
   description (form (step (sample_api (Inl (Thrown (JStr ''offline''))) (Inr JNull))
     (fetchAccountsAndDefaultAccount
        (sample_api (Inl (Thrown (JStr ''offline''))) (Inr JNull)) ''u1'' (mount JUndefined 0))
     (ChangeDescription ''Coffee''))) = JStr ''Coffee''"
proof -
  let ?c = "sample_api (Inl (Thrown (JStr ''offline''))) (Inr JNull)"
  have h: "getAllUserAccountsByUserId ?c ''u1'' = Inl (Thrown (JStr ''offline''))"
    by (simp add: sample_api_def)
  note failed =
    fetch_failure_leaves_form [OF h, of "mount JUndefined 0" 0 "ChangeDescription ''Coffee''"]
  have "effects (mount JUndefined 0) = []"
    by (simp add: mount_def)
  with failed have a: "fetchAccountsAndDefaultAccount ?c ''u1'' (mount JUndefined 0) =
      (mount JUndefined 0)\<lparr>effects :=
        [ConsoleError ''Error fetching accounts:'' (Thrown (JStr ''offline''))]\<rparr>"
    by simp
  from failed have b: "account (form (fetchAccountsAndDefaultAccount ?c ''u1''
      (mount JUndefined 0))) = JStr ''''"
    by blast
  from failed have "form (step ?c (fetchAccountsAndDefaultAccount ?c ''u1'' (mount JUndefined 0))
      (ChangeDescription ''Coffee'')) =
      form (step ?c (mount JUndefined 0) (ChangeDescription ''Coffee''))"
    by blast
  then have c: "description (form (step ?c (fetchAccountsAndDefaultAccount ?c ''u1''
      (mount JUndefined 0)) (ChangeDescription ''Coffee''))) = JStr ''Coffee''"
    by simp
  show ?thesis using a b c by blast
qed

text \<open>
  Claim C7 as stated has the account field empty after every failed fetch. A form opened
  on a stored transaction of account \<open>a9\<close> keeps \<open>a9\<close> when the fetch fails.
\<close>

theorem fetch_failure_edit_mode_counterexample:
  "getAllUserAccountsByUserId (sample_api (Inl (Thrown (JStr ''offline''))) (Inr JNull)) ''u1'' =
     Inl (Thrown (JStr ''offline'')) \<and>
   account (form (fetchAccountsAndDefaultAccount
     (sample_api (Inl (Thrown (JStr ''offline''))) (Inr JNull)) ''u1''
     (mount edit_transaction 0))) = JStr ''a9'' \<and>
   JStr ''a9'' \<noteq> JStr ''''"
  by (simp add: sample_api_def fetchAccountsAndDefaultAccount_def mount_def defaultValues_def
      edit_transaction_def get_prop_opt_def js_or_def)

section \<open>The initial draft\<close>

text \<open>
  Claim C9. Whatever the initial data, the \<^verbatim>\<open>date\<close> field of the initial draft is the
  current date at mount time; a date carried by the initial data is never read.
\<close>

theorem defaultValues_date_is_now:
  "date (defaultValues initialData now) = JDate (Some now) \<and>
   date (form (mount initialData now)) = JDate (Some now)"
  by (simp add: defaultValues_def mount_def)

text \<open>
  The stored transaction is dated 2024-01-01; the form opened on it on 2024-03-01 starts
  with 2024-03-01.
\<close>

theorem defaultValues_date_is_now_witness:
  "get_prop edit_transaction ''date'' = Inr (JDate (Some 1704067200000)) \<and>
   date (form (mount edit_transaction 1709251200000)) = JDate (Some 1709251200000)"
  using defaultValues_date_is_now [of edit_transaction 1709251200000]
  by (simp add: edit_transaction_def)

lemma amount_zero_invalid:
  "amount v = JNum (Num 0) \<Longrightarrow> \<not> valid (validate v) \<and> Amount \<in> set (errors (validate v))"
  by (simp add: validate_def formSchema_def)

lemma step_keeps_amount:
  "\<not> edits_amount ev \<Longrightarrow> amount (form (step c st ev)) = amount (form st)"
  by (cases ev)
    (simp_all add: accounts_effect_def fetchAccountsAndDefaultAccount_def handleSubmit_def
      onSelect_def Let_def split: option.splits sum.splits)

lemma step_no_call:
  assumes "amount (form st) = JNum (Num 0)"
  shows "filter is_create_call (effects (step c st ev)) = filter is_create_call (effects st)"
proof (cases ev)
  case SubmitForm
  with amount_zero_invalid [OF assms] show ?thesis
    by (simp add: handleSubmit_def Let_def)
next
  case (AccountsEffect u)
  then show ?thesis
    by (simp add: accounts_effect_def fetchAccountsAndDefaultAccount_def Let_def
        split: option.splits sum.splits)
qed (simp_all add: onSelect_def)

lemma run_amount_zero:
  assumes "\<forall>ev\<in>set evs. \<not> edits_amount ev" "amount (form st) = JNum (Num 0)"
  shows "amount (form (run c st evs)) = JNum (Num 0) \<and>
         filter is_create_call (effects (run c st evs)) = filter is_create_call (effects st)"
  using assms
proof (induction evs arbitrary: st)
  case Nil
  then show ?case by (simp add: run_def)
next
  case (Cons ev evs)
  from Cons.prems have a: "amount (form (step c st ev)) = JNum (Num 0)"
    by (simp add: step_keeps_amount)
  from Cons.prems have "\<forall>ev\<in>set evs. \<not> edits_amount ev" by simp
  from Cons.IH [OF this a] step_no_call [OF Cons.prems(2), of c ev]
  show ?case by (simp add: run_def)
qed

text \<open>
  Claim C10. A form mounted without initial data starts with the amount 0. After any run
  of events in which the amount control is never changed, the amount is still 0, validation
  fails with an error on the amount, and no creation call has been made, whatever the
  collaborators answer.
\<close>

theorem fresh_form_never_submits:
  assumes "\<forall>ev\<in>set evs. \<not> edits_amount ev"
  shows "amount (form (mount JUndefined now)) = JNum (Num 0) \<and>
         amount (form (run c (mount JUndefined now) evs)) = JNum (Num 0) \<and>
         \<not> valid (validate (form (run c (mount JUndefined now) evs))) \<and>
         Amount \<in> set (errors (validate (form (run c (mount JUndefined now) evs)))) \<and>
         filter is_create_call (effects (run c (mount JUndefined now) evs)) = []"
proof -
  have a: "amount (form (mount JUndefined now)) = JNum (Num 0)"
    by (simp add: mount_def defaultValues_def get_prop_opt_def js_or_def)
  have "effects (mount JUndefined now) = []"
    by (simp add: mount_def)
  with run_amount_zero [OF assms a, of c] amount_zero_invalid a show ?thesis
    by simp
qed

text \<open>
  A session that loads the accounts, fills in description and category, switches the type
  and adds notes, pressing submit twice: the draft is complete but for the amount, and
  nothing was emitted.
\<close>

theorem fresh_form_never_submits_witness:
  "filter edits_amount fresh_session = [] \<and>
   form (run (sample_api (Inr sample_accounts) (Inr (JObj [(''success'', JBool True)])))
     (mount JUndefined 1709251200000) fresh_session) =
     \<lparr>account = JStr ''a2'', type = JStr ''income'', description = JStr ''Coffee'',
      category = JStr ''food'', date = JDate (Some 1709251200000), amount = JNum (Num 0),
      notes = JStr ''beans''\<rparr> \<and>
   effects (run (sample_api (Inr sample_accounts) (Inr (JObj [(''success'', JBool True)])))
     (mount JUndefined 1709251200000) fresh_session) = []"
proof -
  let ?c = "sample_api (Inr sample_accounts) (Inr (JObj [(''success'', JBool True)]))"
  have h: "\<forall>ev\<in>set fresh_session. \<not> edits_amount ev"
    by (simp add: fresh_session_def)
  note never = fresh_form_never_submits [OF h, of 1709251200000 ?c]
  have "form (run ?c (mount JUndefined 1709251200000) fresh_session) =
     \<lparr>account = JStr ''a2'', type = JStr ''income'', description = JStr ''Coffee'',
      category = JStr ''food'', date = JDate (Some 1709251200000), amount = JNum (Num 0),
      notes = JStr ''beans''\<rparr>"
    by (simp add: run_def fresh_session_def mount_def defaultValues_def get_prop_opt_def
        js_or_def accounts_effect_def fetchAccountsAndDefaultAccount_def sample_api_def
        sample_accounts_def handleSubmit_def validate_def formSchema_def Let_def)
  moreover have "effects (run ?c (mount JUndefined 1709251200000) fresh_session) = []"
    by (simp add: run_def fresh_session_def mount_def defaultValues_def get_prop_opt_def
        js_or_def accounts_effect_def fetchAccountsAndDefaultAccount_def sample_api_def
        sample_accounts_def handleSubmit_def validate_def formSchema_def Let_def)
  moreover have "filter edits_amount fresh_session = []"
    by (simp add: fresh_session_def)
  ultimately show ?thesis using never by simp
qed

end
